theory Spec2Isabelle
  imports Main "HOL-Library.Sublist" "HOL-Library.AList"
begin

section \<open>Strings and property bags\<close>

text \<open>
  Event names are JavaScript strings, modelled as \<open>string\<close> (lists of 8-bit code units).
  \<open>is_space\<close> lists the white space and line terminator code units that
  \<open>String.prototype.trim\<close> strips and that fit in 8 bits.
\<close>

definition is_space :: "char \<Rightarrow> bool" where
  "is_space c = (c \<in> set [CHR 0x09, CHR 0x0A, CHR 0x0B, CHR 0x0C, CHR 0x0D, CHR 0x20, CHR 0xA0])"

definition trim :: "string \<Rightarrow> string" where
  "trim s = rev (dropWhile is_space (rev (dropWhile is_space s)))"

text \<open>\<open>xs.join(sep)\<close>.\<close>

fun join :: "string \<Rightarrow> string list \<Rightarrow> string" where
  "join sep [] = []"
| "join sep [x] = x"
| "join sep (x # y # ys) = x @ sep @ join sep (y # ys)"

text \<open>\<open>s.includes(t)\<close> and \<open>s.startsWith(t)\<close>.\<close>

definition includes_str :: "string \<Rightarrow> string \<Rightarrow> bool" where
  "includes_str s t = sublist t s"

definition startsWith :: "string \<Rightarrow> string \<Rightarrow> bool" where
  "startsWith s t = prefix t s"

text \<open>
  A payload bag (\<open>c.sink\<close>, and the object handed to the callback of a train listener) is an
  association list in insertion order; \<open>{...s, [e]: v}\<close> is \<open>spread_put s e v\<close>, where a
  \<open>sink\<close> that is still \<open>undefined\<close> spreads to no property at all.
\<close>

definition spread_put :: "(string \<times> 'p) list option \<Rightarrow> string \<Rightarrow> 'p \<Rightarrow> (string \<times> 'p) list" where
  "spread_put s e v = AList.update e v (case s of None \<Rightarrow> [] | Some kvs \<Rightarrow> kvs)"

section \<open>Numbers\<close>

text \<open>
  A JavaScript number as \<open>Number::toString\<close> takes it apart: \<open>NaN\<close>, an infinity (with
  its sign), zero, or a finite number \<open>\<plusminus> s \<times> 10\<^sup>n\<^sup>-\<^sup>k\<close> other than zero, where \<open>k\<close> is
  the number of decimal digits of \<open>s\<close>. (\<open>toString\<close> takes the shortest \<open>s\<close>; zeros at the
  end of \<open>s\<close> change neither the number nor \<open>n\<close>, nor what \<open>parseInt\<close> reads.) \<open>whole i\<close>
  is the number of the integer \<open>i\<close>. The ceilings that the setters store are
  \<open>parseInt(String(value))\<close>: \<open>NaN\<close> or a whole number, the one that the digits which
  \<open>parseInt\<close> reads denote (above \<open>2\<^sup>5\<^sup>3\<close> the number stored is the floating-point number
  next to it; a comparison with a count of listeners, which is below \<open>2\<^sup>3\<^sup>2\<close>, comes out
  the same for both).
\<close>

datatype number = NotANumber | Infinity bool | Zero | Finite bool nat int

datatype stored = NaN | Whole int

fun ndigits :: "nat \<Rightarrow> nat" where
  "ndigits s = (if s < 10 then 1 else Suc (ndigits (s div 10)))"

declare ndigits.simps [simp del]

definition whole :: "int \<Rightarrow> number" where
  "whole i = (if i = 0 then Zero else Finite (i < 0) (nat \<bar>i\<bar>) (int (ndigits (nat \<bar>i\<bar>))))"

text \<open>\<open>!value\<close>.\<close>

definition falsy :: "number \<Rightarrow> bool" where
  "falsy v = (case v of NotANumber \<Rightarrow> True | Zero \<Rightarrow> True | Infinity neg \<Rightarrow> False
              | Finite neg s n \<Rightarrow> s = 0)"

text \<open>
  \<open>String(value)\<close> writes a finite number with \<open>n\<close> between \<open>-5\<close> and \<open>21\<close> in decimal
  notation and every other one with an exponent, the first digit before the point;
  \<open>parseInt\<close> reads the sign and the digits up to the first character that is not one.
\<close>

definition parseInt_String :: "number \<Rightarrow> stored" where
  "parseInt_String v =
     (case v of
        NotANumber \<Rightarrow> NaN
      | Infinity neg \<Rightarrow> NaN
      | Zero \<Rightarrow> Whole 0
      | Finite neg s n \<Rightarrow>
          (let k = ndigits s;
               digits = (if int k \<le> n \<and> n \<le> 21 then s * 10 ^ nat (n - int k)
                         else if 0 < n \<and> n \<le> 21 then s div 10 ^ (k - nat n)
                         else if - 6 < n \<and> n \<le> 0 then 0
                         else s div 10 ^ (k - 1))
           in Whole (if neg then - int digits else int digits)))"

section \<open>Data model\<close>

type_synonym addr = nat

datatype callKind = On | Once

datatype ordering = Strict | Loose

text \<open>The \<open>event\<close> argument of a registration: one name, or an array of names.\<close>

datatype pattern = Scalar string | Names "string list"

text \<open>What a callback receives: the bare payload, or the payload bag of a train.\<close>

datatype 'p arg = Plain 'p | Bundle "(string \<times> 'p) list"

text \<open>
  \<open>CallbackObject\<close>. Fields that a registration leaves out are \<open>None\<close> (\<open>key\<close> for
  \<open>onOrderOf\<close>; \<open>eventCount\<close>, \<open>matchCount\<close>, \<open>order\<close> for a scalar event; \<open>sink\<close> for
  \<open>on\<close>), \<open>called\<close> starts as \<open>False\<close> (absent, hence falsy), and \<open>registered\<close> of a scalar
  listener, which \<open>emit\<close> never reads, is kept as the empty string. \<open>cb\<close> names the
  caller's function by a number; \<open>None\<close> is the no-op \<open>() => {}\<close> that replaces a value
  which is not a function.
\<close>

record 'p CallbackObject =
  event :: string
  cb :: "nat option"
  callable :: bool
  key :: "string option"
  callType :: callKind
  callsCount :: nat
  isTrainOfEvent :: bool
  eventCount :: "nat option"
  matchCount :: "nat option"
  order :: "ordering option"
  registered :: string
  sink :: "(string \<times> 'p) list option"
  called :: bool

text \<open>An entry of \<open>this.events\<close>.\<close>

record quota =
  evMaxListeners :: "stored option"
  count :: nat

datatype diag =
    InstanceDisconnected
  | ApproachingLimit
  | ApproachingLimitFor string
  | NeverRegistered
  | Discarding string "string option"

datatype error = CapacityExceeded | CapacityExceededFor string | InvalidArgument | TypeError

text \<open>
  \<open>this.keys\<close> and \<open>this.events\<close> are plain objects, so a lookup that finds no property
  of the object itself goes on to \<open>Object.prototype\<close>. There it finds a function under
  each of \<open>builtin_functions\<close>, \<open>Object.prototype\<close> itself under \<open>__proto__\<close>, and
  whatever the instance has written onto \<open>Object.prototype\<close>: a number under
  \<open>maxListeners\<close> (and \<open>NaN\<close>, which is falsy and compares like \<open>undefined\<close>, under
  \<open>count\<close>). An element of the registry is a listener object or, after \<open>reOn\<close> of such a
  name, the inherited value.
\<close>

definition builtin_functions :: "string list" where
  "builtin_functions =
     [''constructor'', ''hasOwnProperty'', ''isPrototypeOf'', ''propertyIsEnumerable'',
      ''toLocaleString'', ''toString'', ''valueOf'', ''__defineGetter__'', ''__defineSetter__'',
      ''__lookupGetter__'', ''__lookupSetter__'']"

datatype inherited = BuiltinFunction string | ObjectPrototype | InheritedNumber int

datatype elem = At addr | Foreign inherited

text \<open>What \<open>obj[n]\<close> finds when it is truthy.\<close>

datatype 'v slot = NoSlot | OwnSlot 'v | InheritedSlot inherited

text \<open>What the outside world observes, in order: console warnings and callback calls.\<close>

datatype 'p obs = Warn diag | Invoke addr "'p arg"

text \<open>
  The instance. Listener objects and arrays are shared by reference in the source
  (\<open>cbObj\<close> sits in \<open>this.callbacks\<close> and in \<open>this.keys\<close>; the \<open>for ... of\<close> of \<open>emit\<close>
  walks the array object that \<open>this.callbacks\<close> named when the loop began), so both live
  in a store: \<open>heap\<close> holds the listener objects and \<open>arrays\<close> the array objects, each
  addressed by its position, and \<open>callbacks\<close> is a reference into \<open>arrays\<close>. \<open>keys\<close> and
  \<open>events\<close> hold the properties of the two objects themselves. \<open>inherited_max\<close> holds
  the \<open>maxListeners\<close> that \<open>setEventMaxListener\<close> has written onto inherited values, by
  the name under which they are inherited (\<open>__proto__\<close> for \<open>Object.prototype\<close>, whose
  properties every object inherits; the \<open>count\<close> that a registration writes there is
  \<open>NaN\<close> and nothing reads it as a number).
\<close>

record 'p LocalSocket =
  heap :: "'p CallbackObject list"
  arrays :: "elem list list"
  callbacks :: nat
  keys :: "(string \<times> addr) list"
  maxListeners :: "stored option"
  events :: "(string \<times> quota) list"
  connected :: bool
  name :: "string option"
  inherited_max :: "(string \<times> stored) list"
  trace :: "'p obs list"

text \<open>
  \<open>new LocalSocket(name)\<close>, in a world where nothing has been written onto
  \<open>Object.prototype\<close>; an empty name is not stored.
\<close>

definition new_LocalSocket :: "string option \<Rightarrow> 'p LocalSocket" where
  "new_LocalSocket n =
     \<lparr>heap = [], arrays = [[]], callbacks = 0, keys = [], maxListeners = None, events = [],
      connected = True, name = (if n = Some [] then None else n), inherited_max = [],
      trace = []\<rparr>"

definition registry :: "'p LocalSocket \<Rightarrow> elem list" where
  "registry h = arrays h ! callbacks h"

definition warn :: "diag \<Rightarrow> 'p LocalSocket \<Rightarrow> 'p LocalSocket" where
  "warn d h = h\<lparr>trace := trace h @ [Warn d]\<rparr>"

definition inherited_value :: "'p LocalSocket \<Rightarrow> string \<Rightarrow> inherited option" where
  "inherited_value h n =
     (if n \<in> set builtin_functions then Some (BuiltinFunction n)
      else if n = ''__proto__'' then Some ObjectPrototype
      else if n = ''maxListeners'' then
        (case map_of (inherited_max h) ''__proto__'' of
           Some (Whole m) \<Rightarrow> if m = 0 then None else Some (InheritedNumber m)
         | _ \<Rightarrow> None)
      else None)"

definition slot_of :: "'p LocalSocket \<Rightarrow> (string \<times> 'v) list \<Rightarrow> string \<Rightarrow> 'v slot" where
  "slot_of h obj n =
     (case map_of obj n of
        Some v \<Rightarrow> OwnSlot v
      | None \<Rightarrow> (case inherited_value h n of Some v \<Rightarrow> InheritedSlot v | None \<Rightarrow> NoSlot))"

text \<open>
  The \<open>maxListeners\<close> of an inherited value: its own one if one was written, else the
  one it inherits from \<open>Object.prototype\<close> in its turn.
\<close>

definition inherited_maxListeners :: "'p LocalSocket \<Rightarrow> inherited \<Rightarrow> stored option" where
  "inherited_maxListeners h v =
     (case v of
        BuiltinFunction n \<Rightarrow>
          (case map_of (inherited_max h) n of
             Some m \<Rightarrow> Some m
           | None \<Rightarrow> map_of (inherited_max h) ''__proto__'')
      | ObjectPrototype \<Rightarrow> map_of (inherited_max h) ''__proto__''
      | InheritedNumber m \<Rightarrow> map_of (inherited_max h) ''__proto__'')"

definition modify :: "addr \<Rightarrow> ('p CallbackObject \<Rightarrow> 'p CallbackObject) \<Rightarrow> 'p LocalSocket \<Rightarrow> 'p LocalSocket" where
  "modify a f h = h\<lparr>heap := (heap h)[a := f (heap h ! a)]\<rparr>"

section \<open>validate and the ceilings\<close>

text \<open>
  \<open>this.events.count\<close>, which the per-event check reads as the listener count, is the
  property \<open>count\<close> of the quota table itself: \<open>undefined\<close> (or an inherited \<open>NaN\<close>), or
  the quota entry of a pattern that is called \<open>count\<close>. Compared with a number each of
  them converts to \<open>NaN\<close>.
\<close>

datatype jsval = Undefined | Object quota | Number int

fun to_number :: "jsval \<Rightarrow> int option" where
  "to_number Undefined = None"
| "to_number (Object q) = None"
| "to_number (Number n) = Some n"

definition events_count :: "'p LocalSocket \<Rightarrow> jsval" where
  "events_count h = (case map_of (events h) ''count'' of None \<Rightarrow> Undefined | Some q \<Rightarrow> Object q)"

definition concat_event :: "pattern \<Rightarrow> string list" where
  "concat_event ev = (case ev of Scalar e \<Rightarrow> [e] | Names es \<Rightarrow> es)"

definition check_connected :: "'p LocalSocket \<Rightarrow> 'p LocalSocket" where
  "check_connected h = (if \<not> connected h then warn InstanceDisconnected h else h)"

definition check_global :: "'p LocalSocket \<Rightarrow> 'p LocalSocket \<times> error option" where
  "check_global h =
     (case maxListeners h of
        None \<Rightarrow> (h, None)
      | Some NaN \<Rightarrow> (h, None)
      | Some (Whole m) \<Rightarrow>
          if m = 0 then (h, None)
          else let listnersCount = int (length (registry h)) in
            if listnersCount \<ge> m then (h, Some CapacityExceeded)
            else if listnersCount > 5 \<and> m - listnersCount < 5 then (warn ApproachingLimit h, None)
            else (h, None))"

text \<open>The body of the per-event check, given \<open>this.events[event].maxListeners\<close>.\<close>

definition check_count :: "string \<Rightarrow> stored option \<Rightarrow> 'p LocalSocket \<Rightarrow> 'p LocalSocket \<times> error option" where
  "check_count e mx h =
     (case mx of
        None \<Rightarrow> (h, None)
      | Some NaN \<Rightarrow> (h, None)
      | Some (Whole m) \<Rightarrow>
          if m = 0 then (h, None)
          else (case to_number (events_count h) of
             None \<Rightarrow> (h, None)
           | Some listnersCount \<Rightarrow>
               if listnersCount \<ge> m then (h, Some (CapacityExceededFor e))
               else if listnersCount > 5 \<and> m - listnersCount < 5
                 then (warn (ApproachingLimitFor e) h, None)
               else (h, None)))"

definition check_event :: "string \<Rightarrow> 'p LocalSocket \<Rightarrow> 'p LocalSocket \<times> error option" where
  "check_event e h =
     (case slot_of h (events h) e of
        NoSlot \<Rightarrow> (h, None)
      | OwnSlot q \<Rightarrow> check_count e (evMaxListeners q) h
      | InheritedSlot v \<Rightarrow> check_count e (inherited_maxListeners h v) h)"

fun check_events :: "string list \<Rightarrow> 'p LocalSocket \<Rightarrow> 'p LocalSocket \<times> error option" where
  "check_events [] h = (h, None)"
| "check_events (e # es) h =
     (case check_event e h of
        (h', Some err) \<Rightarrow> (h', Some err)
      | (h', None) \<Rightarrow> check_events es h')"

definition validate :: "pattern \<Rightarrow> 'p LocalSocket \<Rightarrow> 'p LocalSocket \<times> (error + bool)" where
  "validate ev h =
     (case check_global (check_connected h) of
        (h', Some err) \<Rightarrow> (h', Inl err)
      | (h', None) \<Rightarrow>
          (case check_events (concat_event ev) h' of
             (h'', Some err) \<Rightarrow> (h'', Inl err)
           | (h'', None) \<Rightarrow> (h'', Inr True)))"

definition limitConnections :: "number \<Rightarrow> 'p LocalSocket \<Rightarrow> 'p LocalSocket \<times> (error + unit)" where
  "limitConnections v h =
     (if falsy v then (h, Inl InvalidArgument)
      else (h\<lparr>maxListeners := Some (parseInt_String v)\<rparr>, Inr ()))"

text \<open>
  \<open>setEventMaxListener\<close>. Where \<open>this.events[eventName]\<close> is an inherited function or
  \<open>Object.prototype\<close>, the ceiling is written onto that object; where it is an
  inherited number, the assignment throws (the module runs in strict mode).
\<close>

definition setEventMaxListener :: "string \<Rightarrow> number \<Rightarrow> 'p LocalSocket \<Rightarrow> 'p LocalSocket \<times> (error + unit)" where
  "setEventMaxListener eventName v h =
     (if falsy v then (h, Inl InvalidArgument)
      else (case slot_of h (events h) eventName of
          NoSlot \<Rightarrow> (warn NeverRegistered h, Inr ())
        | OwnSlot q \<Rightarrow>
            (h\<lparr>events := AList.update eventName (q\<lparr>evMaxListeners := Some (parseInt_String v)\<rparr>) (events h)\<rparr>,
             Inr ())
        | InheritedSlot (BuiltinFunction n) \<Rightarrow>
            (h\<lparr>inherited_max := AList.update n (parseInt_String v) (inherited_max h)\<rparr>, Inr ())
        | InheritedSlot ObjectPrototype \<Rightarrow>
            (h\<lparr>inherited_max := AList.update ''__proto__'' (parseInt_String v) (inherited_max h)\<rparr>, Inr ())
        | InheritedSlot (InheritedNumber m) \<Rightarrow> (h, Inl TypeError)))"

section \<open>Registration\<close>

definition isList :: "pattern \<Rightarrow> bool" where
  "isList ev = (case ev of Scalar e \<Rightarrow> False | Names es \<Rightarrow> True)"

text \<open>The \<open>event\<close> field of a new listener, and the key of its quota entry.\<close>

definition event_field :: "pattern \<Rightarrow> string" where
  "event_field ev = (case ev of Scalar e \<Rightarrow> e | Names es \<Rightarrow> join '' '' (map trim es))"

definition stringigiedEvent :: "pattern \<Rightarrow> string" where
  "stringigiedEvent ev = join '' '' (concat_event ev)"

definition train_count :: "pattern \<Rightarrow> nat option" where
  "train_count ev = (case ev of Scalar e \<Rightarrow> None | Names es \<Rightarrow> Some (length es))"

definition alloc :: "'p CallbackObject \<Rightarrow> 'p LocalSocket \<Rightarrow> 'p LocalSocket" where
  "alloc c h = h\<lparr>heap := heap h @ [c]\<rparr>"

definition push :: "addr \<Rightarrow> 'p LocalSocket \<Rightarrow> 'p LocalSocket" where
  "push a h = h\<lparr>arrays := (arrays h)[callbacks h := registry h @ [At a]]\<rparr>"

definition set_key :: "string \<Rightarrow> addr \<Rightarrow> 'p LocalSocket \<Rightarrow> 'p LocalSocket" where
  "set_key k a h = h\<lparr>keys := AList.update k a (keys h)\<rparr>"

text \<open>
  The last step of a registration. Where \<open>this.events[stringigiedEvent]\<close> is an
  inherited function or \<open>Object.prototype\<close>, the count (\<open>NaN\<close>) is written onto that
  object and the quota table gets no entry; where it is an inherited number, the
  assignment throws.
\<close>

definition bump_quota :: "string \<Rightarrow> 'p LocalSocket \<Rightarrow> 'p LocalSocket \<times> error option" where
  "bump_quota s h =
     (case slot_of h (events h) s of
        OwnSlot q \<Rightarrow> (h\<lparr>events := AList.update s (q\<lparr>count := count q + 1\<rparr>) (events h)\<rparr>, None)
      | InheritedSlot (InheritedNumber m) \<Rightarrow> (h, Some TypeError)
      | InheritedSlot v \<Rightarrow> (h, None)
      | NoSlot \<Rightarrow>
          (h\<lparr>events := AList.update s \<lparr>evMaxListeners = None, count = 1\<rparr> (events h)\<rparr>, None))"

definition returning :: "'r \<Rightarrow> 's \<times> error option \<Rightarrow> 's \<times> (error + 'r)" where
  "returning v r = (case r of (s, Some err) \<Rightarrow> (s, Inl err) | (s, None) \<Rightarrow> (s, Inr v))"

text \<open>
  The four registrations. \<open>k\<close> is what \<open>randomSequentialId()\<close> returns at the call (the
  clock in base 36). The new object gets the next free address.
\<close>

definition on :: "pattern \<Rightarrow> nat option \<Rightarrow> string \<Rightarrow> 'p LocalSocket \<Rightarrow> 'p LocalSocket \<times> (error + string option)" where
  "on ev f k h =
     (case validate ev h of
        (h', Inl err) \<Rightarrow> (h', Inl err)
      | (h', Inr validState) \<Rightarrow>
          if \<not> validState then (h', Inr None)
          else let cbObj = \<lparr>event = event_field ev, cb = f, callable = True, key = Some k,
                         callType = On, callsCount = 0, isTrainOfEvent = isList ev,
                         eventCount = train_count ev,
                         matchCount = (if isList ev then Some 0 else None),
                         order = (if isList ev then Some Loose else None),
                         registered = [], sink = None, called = False\<rparr>;
                   a = length (heap h')
               in returning (Some k)
                    (bump_quota (stringigiedEvent ev) (set_key k a (push a (alloc cbObj h')))))"

definition onOrderOf :: "pattern \<Rightarrow> nat option \<Rightarrow> string \<Rightarrow> 'p LocalSocket \<Rightarrow> 'p LocalSocket \<times> (error + string option)" where
  "onOrderOf ev f k h =
     (case validate ev h of
        (h', Inl err) \<Rightarrow> (h', Inl err)
      | (h', Inr validState) \<Rightarrow>
          if \<not> validState then (h', Inr None)
          else let cbObj = \<lparr>event = event_field ev, cb = f, callable = True, key = None,
                         callType = On, callsCount = 0, isTrainOfEvent = isList ev,
                         eventCount = train_count ev,
                         matchCount = (if isList ev then Some 0 else None),
                         order = (if isList ev then Some Strict else None),
                         registered = [], sink = (if isList ev then Some [] else None),
                         called = False\<rparr>;
                   a = length (heap h')
               in returning (Some k)
                    (bump_quota (stringigiedEvent ev) (set_key k a (push a (alloc cbObj h')))))"

definition onceOrderOf :: "pattern \<Rightarrow> nat option \<Rightarrow> string \<Rightarrow> 'p LocalSocket \<Rightarrow> 'p LocalSocket \<times> (error + string option)" where
  "onceOrderOf ev f k h =
     (case validate ev h of
        (h', Inl err) \<Rightarrow> (h', Inl err)
      | (h', Inr validState) \<Rightarrow>
          if \<not> validState then (h', Inr None)
          else let cbObj = \<lparr>event = event_field ev, cb = f, callable = True, key = Some k,
                         callType = Once, callsCount = 0, isTrainOfEvent = isList ev,
                         eventCount = train_count ev,
                         matchCount = (if isList ev then Some 0 else None),
                         order = (if isList ev then Some Strict else None),
                         registered = [], sink = (if isList ev then Some [] else None),
                         called = False\<rparr>;
                   a = length (heap h')
               in returning (Some k)
                    (bump_quota (stringigiedEvent ev) (push a (set_key k a (alloc cbObj h')))))"

definition once :: "pattern \<Rightarrow> nat option \<Rightarrow> string \<Rightarrow> 'p LocalSocket \<Rightarrow> 'p LocalSocket \<times> (error + string option)" where
  "once ev f k h =
     (case validate ev h of
        (h', Inl err) \<Rightarrow> (h', Inl err)
      | (h', Inr validState) \<Rightarrow>
          if \<not> validState then (h', Inr None)
          else let cbObj = \<lparr>event = event_field ev, cb = f, callable = True, key = Some k,
                         callType = Once, callsCount = 0, isTrainOfEvent = isList ev,
                         eventCount = train_count ev,
                         matchCount = (if isList ev then Some 0 else None),
                         order = (if isList ev then Some Loose else None),
                         registered = [], sink = (if isList ev then Some [] else None),
                         called = False\<rparr>;
                   a = length (heap h')
               in returning (Some k)
                    (bump_quota (stringigiedEvent ev) (set_key k a (push a (alloc cbObj h')))))"

section \<open>Removal, reactivation, reset\<close>

text \<open>
  A key is falsy when it is the empty string. \<open>cb.key\<close> of an inherited value in the
  registry is \<open>undefined\<close>.
\<close>

definition key_differs :: "'p LocalSocket \<Rightarrow> string \<Rightarrow> elem \<Rightarrow> bool" where
  "key_differs h k x = (case x of At a \<Rightarrow> key (heap h ! a) \<noteq> Some k | Foreign v \<Rightarrow> True)"

definition remove :: "string \<Rightarrow> 'p LocalSocket \<Rightarrow> 'p LocalSocket" where
  "remove k h =
     (if k = [] then h
      else (case slot_of h (keys h) k of
          NoSlot \<Rightarrow> h
        | _ \<Rightarrow>
            h\<lparr>events := AList.delete k (events h),
              arrays := arrays h @ [filter (key_differs h k) (registry h)],
              callbacks := length (arrays h)\<rparr>))"

definition off :: "string \<Rightarrow> 'p LocalSocket \<Rightarrow> 'p LocalSocket" where
  "off k h = remove k h"

definition reOn :: "string \<Rightarrow> 'p LocalSocket \<Rightarrow> 'p LocalSocket" where
  "reOn k h =
     (if k = [] then h
      else (case slot_of h (keys h) k of
          NoSlot \<Rightarrow> h
        | OwnSlot c \<Rightarrow>
            h\<lparr>arrays := arrays h @ [registry h @ [At c]], callbacks := length (arrays h)\<rparr>
        | InheritedSlot v \<Rightarrow>
            h\<lparr>arrays := arrays h @ [registry h @ [Foreign v]], callbacks := length (arrays h)\<rparr>))"

definition drop_all :: "'p LocalSocket \<Rightarrow> 'p LocalSocket" where
  "drop_all h = h\<lparr>keys := [], arrays := arrays h @ [[]], callbacks := length (arrays h), events := []\<rparr>"

section \<open>Callbacks\<close>

text \<open>
  A callback is the caller's code. It is modelled by what it does to the instance when
  called: a sequence of calls of the instance's own operations (registrations carry the
  key the clock gives them). The environment \<open>env\<close> maps a function's number and the
  argument it receives to that sequence. A callback that announces again from inside
  \<open>emit\<close> is outside this model. An operation that throws ends the callback, and the
  exception leaves \<open>emit\<close> with it.
\<close>

datatype action =
    DoOn pattern "nat option" string
  | DoOnOrderOf pattern "nat option" string
  | DoOnceOrderOf pattern "nat option" string
  | DoOnce pattern "nat option" string
  | DoOff string
  | DoReOn string
  | DoRemove string
  | DoDrop
  | DoLimitConnections number
  | DoSetEventMaxListener string number

type_synonym 'p env = "nat \<Rightarrow> 'p arg \<Rightarrow> action list"

definition thrown :: "'s \<times> (error + 'r) \<Rightarrow> 's \<times> error option" where
  "thrown r = (case r of (s, Inl err) \<Rightarrow> (s, Some err) | (s, Inr v) \<Rightarrow> (s, None))"

fun perform :: "action \<Rightarrow> 'p LocalSocket \<Rightarrow> 'p LocalSocket \<times> error option" where
  "perform (DoOn ev f k) h = thrown (on ev f k h)"
| "perform (DoOnOrderOf ev f k) h = thrown (onOrderOf ev f k h)"
| "perform (DoOnceOrderOf ev f k) h = thrown (onceOrderOf ev f k h)"
| "perform (DoOnce ev f k) h = thrown (once ev f k h)"
| "perform (DoOff k) h = (off k h, None)"
| "perform (DoReOn k) h = (reOn k h, None)"
| "perform (DoRemove k) h = (remove k h, None)"
| "perform DoDrop h = (drop_all h, None)"
| "perform (DoLimitConnections v) h = thrown (limitConnections v h)"
| "perform (DoSetEventMaxListener e v) h = thrown (setEventMaxListener e v h)"

fun run :: "action list \<Rightarrow> 'p LocalSocket \<Rightarrow> 'p LocalSocket \<times> error option" where
  "run [] h = (h, None)"
| "run (x # xs) h =
     (case perform x h of
        (h', Some err) \<Rightarrow> (h', Some err)
      | (h', None) \<Rightarrow> run xs h')"

definition invoke :: "'p env \<Rightarrow> addr \<Rightarrow> 'p arg \<Rightarrow> 'p LocalSocket \<Rightarrow> 'p LocalSocket \<times> error option" where
  "invoke env a x h =
     (let h' = h\<lparr>trace := trace h @ [Invoke a x]\<rparr>
      in case cb (heap h ! a) of
           None \<Rightarrow> (h', None)
         | Some f \<Rightarrow> run (env f x) h')"

section \<open>emit\<close>

definition eventMatch :: "'p CallbackObject \<Rightarrow> string \<Rightarrow> bool" where
  "eventMatch c e =
     (if \<not> isTrainOfEvent c then event c = e
      else trim (registered c @ '' '' @ e) = event c)"

text \<open>The first block of the loop body: a strict train drops its progress.\<close>

definition strict_check :: "bool \<Rightarrow> string \<Rightarrow> 'p CallbackObject \<Rightarrow> 'p CallbackObject" where
  "strict_check m e c =
     (if isTrainOfEvent c then
        (if order c = Some Strict \<and> \<not> m then
           (if includes_str (event c) (trim (registered c @ '' '' @ e)) then c
            else c\<lparr>sink := Some [], registered := []\<rparr>)
         else c)
      else c)"

definition callback_arg :: "'p CallbackObject \<Rightarrow> string \<Rightarrow> 'p \<Rightarrow> 'p arg" where
  "callback_arg c e args =
     (if isTrainOfEvent c then Bundle (spread_put (sink c) e args) else Plain args)"

text \<open>The second block: the call, with its bookkeeping before or after it.\<close>

definition fire :: "'p env \<Rightarrow> string \<Rightarrow> 'p \<Rightarrow> addr \<Rightarrow> 'p LocalSocket \<Rightarrow> 'p LocalSocket \<times> error option" where
  "fire env e args a h =
     (case callType (heap h ! a) of
        On \<Rightarrow>
          (case invoke env a (callback_arg (heap h ! a) e args) h of
             (h', Some err) \<Rightarrow> (h', Some err)
           | (h', None) \<Rightarrow>
               (modify a (\<lambda>c. c\<lparr>callsCount := callsCount c + 1, sink := Some []\<rparr>) h', None))
      | Once \<Rightarrow>
          if called (heap h ! a) then (h, None)
          else let h' = modify a (\<lambda>c. c\<lparr>called := True, callsCount := callsCount c + 1\<rparr>) h
               in invoke env a (callback_arg (heap h' ! a) e args) h')"

text \<open>The third block: a train records the payload and extends or resets its prefix.\<close>

definition advance :: "bool \<Rightarrow> string \<Rightarrow> 'p \<Rightarrow> 'p CallbackObject \<Rightarrow> 'p CallbackObject" where
  "advance m e args c =
     (if \<not> m \<and> isTrainOfEvent c then
        (let c' = (if includes_str (event c) e
                   then c\<lparr>sink := Some (spread_put (sink c) e args)\<rparr> else c);
             currentRegister = registered c';
             firstRegister = (registered c' = [])
         in if firstRegister then
              (if startsWith (event c') e then c'\<lparr>registered := trim e\<rparr> else c')
            else
              (if includes_str (event c') (currentRegister @ '' '' @ e)
               then c'\<lparr>registered := currentRegister @ '' '' @ trim e\<rparr> else c'))
      else if isTrainOfEvent c then c\<lparr>sink := Some [], registered := []\<rparr>
      else c)"

definition emit_body :: "'p env \<Rightarrow> string \<Rightarrow> 'p \<Rightarrow> addr \<Rightarrow> 'p LocalSocket \<Rightarrow> 'p LocalSocket \<times> error option" where
  "emit_body env e args a h =
     (let m = eventMatch (heap h ! a) e;
          h1 = modify a (strict_check m e) h
      in case (if m \<and> callable (heap h1 ! a) then fire env e args a h1 else (h1, None)) of
           (h2, Some err) \<Rightarrow> (h2, Some err)
         | (h2, None) \<Rightarrow> (modify a (advance m e args) h2, None))"

text \<open>
  \<open>for (const c of this.callbacks)\<close>: the iterator holds the array object \<open>r\<close> and an
  index, and looks at the array's current length before every step, so what a callback
  pushes onto that array is visited too. A callback that keeps pushing keeps the loop
  running: not returning is the value \<open>None\<close>.
\<close>

text \<open>
  An inherited value in the registry has none of the fields the body reads
  (\<open>isTrainOfEvent\<close> and \<open>event\<close> are \<open>undefined\<close>): the body does nothing with it.
\<close>

definition emit_elem :: "'p env \<Rightarrow> string \<Rightarrow> 'p \<Rightarrow> elem \<Rightarrow> 'p LocalSocket \<Rightarrow> 'p LocalSocket \<times> error option" where
  "emit_elem env e args x h = (case x of At a \<Rightarrow> emit_body env e args a h | Foreign v \<Rightarrow> (h, None))"

partial_function (option) emit_loop ::
  "'p env \<Rightarrow> string \<Rightarrow> 'p \<Rightarrow> nat \<Rightarrow> nat \<Rightarrow> 'p LocalSocket \<Rightarrow> ('p LocalSocket \<times> error option) option" where
  "emit_loop env e args r i h =
     (if i < length (arrays h ! r) then
        (case emit_elem env e args (arrays h ! r ! i) h of
           (h', Some err) \<Rightarrow> Some (h', Some err)
         | (h', None) \<Rightarrow> emit_loop env e args r (i + 1) h')
      else Some (h, None))"

declare emit_loop.simps [code]

definition emit :: "'p env \<Rightarrow> string \<Rightarrow> 'p \<Rightarrow> 'p LocalSocket \<Rightarrow> ('p LocalSocket \<times> error option) option" where
  "emit env e args h =
     (if \<not> connected h then Some (warn (Discarding e (name h)) h, None)
      else emit_loop env e args (callbacks h) 0 h)"

text \<open>
  \<open>connect\<close> and \<open>disconnect\<close>; \<open>info\<close> is the object
  \<open>{connectionId, connections, connected}\<close> they announce.
\<close>

definition connect :: "'p env \<Rightarrow> 'p \<Rightarrow> 'p LocalSocket \<Rightarrow> ('p LocalSocket \<times> error option) option" where
  "connect env info h = emit env ''connect'' info (h\<lparr>connected := True\<rparr>)"

definition disconnect :: "'p env \<Rightarrow> 'p \<Rightarrow> 'p LocalSocket \<Rightarrow> ('p LocalSocket \<times> error option) option" where
  "disconnect env info h =
     (if \<not> connected h then Some (h, None)
      else emit env ''disconnect'' info (h\<lparr>connected := False\<rparr>))"

section \<open>Vocabulary of the properties\<close>

text \<open>Any one of the four registrations.\<close>

datatype regKind = ViaOn | ViaOnOrderOf | ViaOnceOrderOf | ViaOnce

fun register :: "regKind \<Rightarrow> pattern \<Rightarrow> nat option \<Rightarrow> string \<Rightarrow> 'p LocalSocket \<Rightarrow> 'p LocalSocket \<times> (error + string option)" where
  "register ViaOn ev f k h = on ev f k h"
| "register ViaOnOrderOf ev f k h = onOrderOf ev f k h"
| "register ViaOnceOrderOf ev f k h = onceOrderOf ev f k h"
| "register ViaOnce ev f k h = once ev f k h"


text \<open>The arguments with which the callback of the listener at \<open>a\<close> has been called so far.\<close>

fun calls_in :: "addr \<Rightarrow> 'p obs list \<Rightarrow> 'p arg list" where
  "calls_in a [] = []"
| "calls_in a (Warn d # os) = calls_in a os"
| "calls_in a (Invoke b x # os) = (if b = a then x # calls_in a os else calls_in a os)"

definition calls_of :: "addr \<Rightarrow> 'p LocalSocket \<Rightarrow> 'p arg list" where
  "calls_of a h = calls_in a (trace h)"



text \<open>
  Well-formed stores: \<open>this.callbacks\<close> names an array, and the array holds listener
  objects that exist.
\<close>

definition elem_ok :: "'p LocalSocket \<Rightarrow> elem \<Rightarrow> bool" where
  "elem_ok h x = (case x of At a \<Rightarrow> a < length (heap h) | Foreign v \<Rightarrow> True)"

definition hub_ok :: "'p LocalSocket \<Rightarrow> bool" where
  "hub_ok h = (callbacks h < length (arrays h) \<and> list_all (elem_ok h) (registry h))"

text \<open>
  The announce of the specification (4.3, 9), for comparison with \<open>emit\<close>: the loop body
  of \<open>emit\<close>, run over the listeners that the registry held when the call began.
\<close>

fun emit_each :: "'p env \<Rightarrow> string \<Rightarrow> 'p \<Rightarrow> elem list \<Rightarrow> 'p LocalSocket \<Rightarrow> 'p LocalSocket \<times> error option" where
  "emit_each env e args [] h = (h, None)"
| "emit_each env e args (a # as) h =
     (case emit_elem env e args a h of
        (h', Some err) \<Rightarrow> (h', Some err)
      | (h', None) \<Rightarrow> emit_each env e args as h')"

definition emit_snapshot :: "'p env \<Rightarrow> string \<Rightarrow> 'p \<Rightarrow> 'p LocalSocket \<Rightarrow> 'p LocalSocket \<times> error option" where
  "emit_snapshot env e args h =
     (if \<not> connected h then (warn (Discarding e (name h)) h, None)
      else emit_each env e args (registry h) h)"

text \<open>
  One listener seen on its own: what one pass of the loop body does to the object
  (\<open>listener_step\<close>) and the call it makes (\<open>listener_call\<close>) when the callback leaves
  the instance alone; \<open>track\<close> and \<open>track_calls\<close> follow the object through a run of
  announcements.
\<close>

definition fire_obj :: "'p CallbackObject \<Rightarrow> 'p CallbackObject" where
  "fire_obj c =
     (case callType c of
        On \<Rightarrow> c\<lparr>callsCount := callsCount c + 1, sink := Some []\<rparr>
      | Once \<Rightarrow> if called c then c else c\<lparr>called := True, callsCount := callsCount c + 1\<rparr>)"

definition fires :: "string \<Rightarrow> 'p CallbackObject \<Rightarrow> bool" where
  "fires e c = (eventMatch c e \<and> callable c \<and> (callType c = On \<or> (callType c = Once \<and> \<not> called c)))"

definition listener_step :: "string \<Rightarrow> 'p \<Rightarrow> 'p CallbackObject \<Rightarrow> 'p CallbackObject" where
  "listener_step e args c =
     (let m = eventMatch c e;
          c1 = strict_check m e c;
          c2 = (if m \<and> callable c1 then fire_obj c1 else c1)
      in advance m e args c2)"

definition listener_call :: "string \<Rightarrow> 'p \<Rightarrow> 'p CallbackObject \<Rightarrow> 'p arg list" where
  "listener_call e args c = (if fires e c then [callback_arg c e args] else [])"

fun track :: "(string \<times> 'p) list \<Rightarrow> 'p CallbackObject \<Rightarrow> 'p CallbackObject" where
  "track [] c = c"
| "track (ep # eps) c = track eps (listener_step (fst ep) (snd ep) c)"

fun track_calls :: "(string \<times> 'p) list \<Rightarrow> 'p CallbackObject \<Rightarrow> 'p arg list" where
  "track_calls [] c = []"
| "track_calls (ep # eps) c =
     listener_call (fst ep) (snd ep) c @ track_calls eps (listener_step (fst ep) (snd ep) c)"

definition registers :: "action \<Rightarrow> bool" where
  "registers x = (case x of DoOn ev f k \<Rightarrow> True | DoOnOrderOf ev f k \<Rightarrow> True
                  | DoOnceOrderOf ev f k \<Rightarrow> True | DoOnce ev f k \<Rightarrow> True | _ \<Rightarrow> False)"

text \<open>The global ceiling is set and the registry has reached it.\<close>

definition ceiling_reached :: "'p LocalSocket \<Rightarrow> bool" where
  "ceiling_reached h =
     (case maxListeners h of
        Some (Whole m) \<Rightarrow> m \<noteq> 0 \<and> m \<le> int (length (registry h))
      | _ \<Rightarrow> False)"

text \<open>The write to the quota table at the end of a registration throws.\<close>

definition quota_write_throws :: "'p LocalSocket \<Rightarrow> string \<Rightarrow> bool" where
  "quota_write_throws h s =
     (case slot_of h (events h) s of InheritedSlot (InheritedNumber m) \<Rightarrow> True | _ \<Rightarrow> False)"



section \<open>Facts about trimmed and joined strings\<close>










section \<open>The loop of emit and the walk over a snapshot\<close>

lemma nth_prefix: "prefix xs ys \<Longrightarrow> r < length xs \<Longrightarrow> ys ! r = xs ! r"
  by (auto simp: prefix_def nth_append)

lemma perform_prefix: "\<not> registers x \<Longrightarrow> prefix (arrays h) (arrays (fst (perform x h)))"
  by (cases x)
     (auto simp: registers_def thrown_def off_def remove_def reOn_def drop_all_def
        limitConnections_def setEventMaxListener_def warn_def
        split: option.splits slot.splits inherited.splits)

lemma run_prefix: "\<forall>x\<in>set xs. \<not> registers x \<Longrightarrow> prefix (arrays h) (arrays (fst (run xs h)))"
proof (induction xs arbitrary: h)
  case Nil
  then show ?case by simp
next
  case (Cons x xs)
  obtain h' r where p: "perform x h = (h', r)" by (cases "perform x h")
  have 1: "prefix (arrays h) (arrays h')"
    using perform_prefix[of x h] Cons.prems p by simp
  show ?case
  proof (cases r)
    case None
    have "prefix (arrays h') (arrays (fst (run xs h')))" using Cons by simp
    with 1 show ?thesis using p None by (auto intro: prefix_order.trans)
  next
    case (Some err)
    with 1 p show ?thesis by simp
  qed
qed

lemma invoke_prefix:
  "\<forall>f x. \<forall>act\<in>set (env f x). \<not> registers act \<Longrightarrow> prefix (arrays h) (arrays (fst (invoke env a x h)))"
  using run_prefix[of "env f x" "h\<lparr>trace := trace h @ [Invoke a x]\<rparr>" for f]
  by (auto simp: invoke_def Let_def split: option.splits)

lemma arrays_modify [simp]: "arrays (modify a f h) = arrays h"
  by (simp add: modify_def)

lemma fire_prefix:
  assumes "\<forall>f x. \<forall>act\<in>set (env f x). \<not> registers act"
  shows "prefix (arrays h) (arrays (fst (fire env e args a h)))"
proof (cases "callType (heap h ! a)")
  case On
  obtain h' r where i: "invoke env a (callback_arg (heap h ! a) e args) h = (h', r)"
    by (cases "invoke env a (callback_arg (heap h ! a) e args) h")
  have "prefix (arrays h) (arrays h')" using invoke_prefix[OF assms, of h a] i by (metis fst_conv)
  then show ?thesis using On i by (cases r) (simp_all add: fire_def)
next
  case Once
  show ?thesis
  proof (cases "called (heap h ! a)")
    case True
    then show ?thesis using Once by (simp add: fire_def)
  next
    case False
    then show ?thesis
      using Once invoke_prefix[OF assms, of "modify a (\<lambda>c. c\<lparr>called := True, callsCount := callsCount c + 1\<rparr>) h" a]
      by (simp add: fire_def Let_def)
  qed
qed

lemma emit_body_prefix:
  assumes "\<forall>f x. \<forall>act\<in>set (env f x). \<not> registers act"
  shows "prefix (arrays h) (arrays (fst (emit_body env e args a h)))"
proof -
  let ?m = "eventMatch (heap h ! a) e"
  let ?h1 = "modify a (strict_check ?m e) h"
  show ?thesis
  proof (cases "?m \<and> callable (heap ?h1 ! a)")
    case True
    obtain h2 r where f: "fire env e args a ?h1 = (h2, r)" by (cases "fire env e args a ?h1")
    have "prefix (arrays ?h1) (arrays h2)" using fire_prefix[OF assms, of ?h1 e args a] f by (metis fst_conv)
    then show ?thesis using True f by (cases r) (simp_all add: emit_body_def Let_def)
  next
    case False
    then show ?thesis by (auto simp: emit_body_def Let_def)
  qed
qed

lemma emit_elem_prefix:
  assumes "\<forall>f x. \<forall>act\<in>set (env f x). \<not> registers act"
  shows "prefix (arrays h) (arrays (fst (emit_elem env e args x h)))"
  using emit_body_prefix[OF assms] by (cases x) (simp_all add: emit_elem_def)

lemma emit_loop_snapshot:
  assumes env: "\<forall>f x. \<forall>act\<in>set (env f x). \<not> registers act"
  shows "r < length (arrays h) \<Longrightarrow> i \<le> length (arrays h ! r) \<Longrightarrow>
         emit_loop env e args r i h = Some (emit_each env e args (drop i (arrays h ! r)) h)"
proof (induction "length (arrays h ! r) - i" arbitrary: i h)
  case 0
  then show ?case by (subst emit_loop.simps) simp
next
  case (Suc n)
  then have lt: "i < length (arrays h ! r)" by simp
  obtain h' err where b: "emit_elem env e args (arrays h ! r ! i) h = (h', err)"
    by (cases "emit_elem env e args (arrays h ! r ! i) h")
  have pre: "prefix (arrays h) (arrays h')"
    using emit_elem_prefix[OF env, of h e args "arrays h ! r ! i"] b by simp
  have same: "arrays h' ! r = arrays h ! r" using nth_prefix[OF pre Suc.prems(1)] .
  have r': "r < length (arrays h')" using pre Suc.prems(1) by (auto dest: prefix_length_le)
  have d: "drop i (arrays h ! r) = arrays h ! r ! i # drop (i + 1) (arrays h ! r)"
    using lt by (simp add: Cons_nth_drop_Suc)
  show ?case
  proof (cases err)
    case None
    have "emit_loop env e args r (i + 1) h' = Some (emit_each env e args (drop (i + 1) (arrays h' ! r)) h')"
      using Suc.hyps(1)[of h' "i + 1"] Suc.hyps(2) r' lt same by simp
    then show ?thesis
      by (subst emit_loop.simps) (simp add: lt b None same d)
  next
    case (Some e')
    then show ?thesis by (subst emit_loop.simps) (simp add: lt b d)
  qed
qed

lemma emit_is_snapshot:
  assumes "\<forall>f x. \<forall>act\<in>set (env f x). \<not> registers act" "callbacks h < length (arrays h)"
  shows "emit env e args h = Some (emit_snapshot env e args h)"
  using emit_loop_snapshot[OF assms(1), of "callbacks h" h 0 e args] assms(2)
  by (simp add: emit_def emit_snapshot_def registry_def)

section \<open>Callbacks that leave the instance alone\<close>



lemma strict_check_True [simp]: "strict_check True e c = c"
  by (simp add: strict_check_def)

lemma strict_check_fields [simp]:
  "callable (strict_check m e c) = callable c"
  "callType (strict_check m e c) = callType c"
  "called (strict_check m e c) = called c"
  "isTrainOfEvent (strict_check m e c) = isTrainOfEvent c"
  "event (strict_check m e c) = event c"
  "order (strict_check m e c) = order c"
  by (simp_all add: strict_check_def)


lemma calls_in_append [simp]: "calls_in a (xs @ ys) = calls_in a xs @ calls_in a ys"
  by (induction a xs rule: calls_in.induct) auto

lemma calls_in_Invoke [simp]: "calls_in a (map (Invoke b) zs) = (if b = a then zs else [])"
  by (induction zs) auto







section \<open>Facts about validate and the registrations\<close>

lemma check_count_noop [simp]: "check_count e mx h = (h, None)"
  by (simp add: check_count_def events_count_def split: option.splits stored.splits)

lemma check_event_noop [simp]: "check_event e h = (h, None)"
  by (simp add: check_event_def split: slot.splits)

lemma check_events_noop [simp]: "check_events es h = (h, None)"
  by (induction es) simp_all

lemma check_global_result:
  "snd (check_global h) = (if ceiling_reached h then Some CapacityExceeded else None)"
  by (simp add: check_global_def ceiling_reached_def Let_def split: option.splits stored.splits)

lemma inherited_value_cong:
  "inherited_max h' = inherited_max h \<Longrightarrow> inherited_value h' n = inherited_value h n"
  by (simp add: inherited_value_def)

lemma slot_of_cong:
  assumes "inherited_max h' = inherited_max h"
  shows "slot_of h' obj n = slot_of h obj n"
  unfolding slot_of_def inherited_value_cong[OF assms] by (rule refl)

lemma quota_write_throws_cong:
  assumes "events h' = events h" "inherited_max h' = inherited_max h"
  shows "quota_write_throws h' s = quota_write_throws h s"
  unfolding quota_write_throws_def slot_of_cong[OF assms(2)] assms(1) by (rule refl)

lemma warn_fields [simp]:
  "heap (warn d h) = heap h" "arrays (warn d h) = arrays h" "callbacks (warn d h) = callbacks h"
  "keys (warn d h) = keys h" "events (warn d h) = events h" "maxListeners (warn d h) = maxListeners h"
  "connected (warn d h) = connected h" "name (warn d h) = name h"
  "inherited_max (warn d h) = inherited_max h"
  "trace (warn d h) = trace h @ [Warn d]" "registry (warn d h) = registry h"
  by (simp_all add: warn_def registry_def)

lemma check_connected_fields [simp]:
  "heap (check_connected h) = heap h" "arrays (check_connected h) = arrays h"
  "callbacks (check_connected h) = callbacks h" "keys (check_connected h) = keys h"
  "events (check_connected h) = events h" "maxListeners (check_connected h) = maxListeners h"
  "connected (check_connected h) = connected h" "name (check_connected h) = name h"
  "registry (check_connected h) = registry h"
  "inherited_max (check_connected h) = inherited_max h"
  "calls_in a (trace (check_connected h)) = calls_in a (trace h)"
  by (simp_all add: check_connected_def)

lemma check_global_fields [simp]:
  "heap (fst (check_global h)) = heap h" "arrays (fst (check_global h)) = arrays h"
  "callbacks (fst (check_global h)) = callbacks h" "keys (fst (check_global h)) = keys h"
  "events (fst (check_global h)) = events h" "maxListeners (fst (check_global h)) = maxListeners h"
  "connected (fst (check_global h)) = connected h" "name (fst (check_global h)) = name h"
  "registry (fst (check_global h)) = registry h"
  "inherited_max (fst (check_global h)) = inherited_max h"
  "calls_in a (trace (fst (check_global h))) = calls_in a (trace h)"
  by (simp_all add: check_global_def Let_def split: option.splits stored.splits)

lemma ceiling_reached_check_connected [simp]:
  "ceiling_reached (check_connected h) = ceiling_reached h"
  by (simp add: ceiling_reached_def split: option.splits stored.splits)

lemma validate_cases:
  "validate ev h =
     (if ceiling_reached h then (fst (check_global (check_connected h)), Inl CapacityExceeded)
      else (fst (check_global (check_connected h)), Inr True))"
proof -
  obtain h' r where g: "check_global (check_connected h) = (h', r)"
    by (cases "check_global (check_connected h)")
  have "r = (if ceiling_reached h then Some CapacityExceeded else None)"
    using check_global_result[of "check_connected h"] g by simp
  then show ?thesis using g by (simp add: validate_def)
qed

lemma alloc_fields [simp]:
  "heap (alloc c h) = heap h @ [c]" "arrays (alloc c h) = arrays h" "callbacks (alloc c h) = callbacks h"
  "keys (alloc c h) = keys h" "events (alloc c h) = events h" "maxListeners (alloc c h) = maxListeners h"
  "connected (alloc c h) = connected h" "name (alloc c h) = name h" "trace (alloc c h) = trace h"
  "registry (alloc c h) = registry h" "inherited_max (alloc c h) = inherited_max h"
  by (simp_all add: alloc_def registry_def)

lemma push_fields [simp]:
  "heap (push a h) = heap h" "arrays (push a h) = (arrays h)[callbacks h := registry h @ [At a]]"
  "callbacks (push a h) = callbacks h"
  "keys (push a h) = keys h" "events (push a h) = events h" "maxListeners (push a h) = maxListeners h"
  "connected (push a h) = connected h" "name (push a h) = name h" "trace (push a h) = trace h"
  "inherited_max (push a h) = inherited_max h"
  by (simp_all add: push_def)

lemma registry_push: "callbacks h < length (arrays h) \<Longrightarrow> registry (push a h) = registry h @ [At a]"
  by (simp add: push_def registry_def)

lemma set_key_fields [simp]:
  "heap (set_key k a h) = heap h" "arrays (set_key k a h) = arrays h" "callbacks (set_key k a h) = callbacks h"
  "keys (set_key k a h) = AList.update k a (keys h)" "events (set_key k a h) = events h"
  "maxListeners (set_key k a h) = maxListeners h"
  "connected (set_key k a h) = connected h" "name (set_key k a h) = name h" "trace (set_key k a h) = trace h"
  "registry (set_key k a h) = registry h" "inherited_max (set_key k a h) = inherited_max h"
  by (simp_all add: set_key_def registry_def)

lemma bump_quota_fields [simp]:
  "heap (fst (bump_quota s h)) = heap h" "arrays (fst (bump_quota s h)) = arrays h"
  "callbacks (fst (bump_quota s h)) = callbacks h" "keys (fst (bump_quota s h)) = keys h"
  "maxListeners (fst (bump_quota s h)) = maxListeners h"
  "connected (fst (bump_quota s h)) = connected h" "name (fst (bump_quota s h)) = name h"
  "trace (fst (bump_quota s h)) = trace h"
  "registry (fst (bump_quota s h)) = registry h"
  "inherited_max (fst (bump_quota s h)) = inherited_max h"
  by (simp_all add: bump_quota_def registry_def split: slot.splits inherited.splits)

lemma quota_write_throws_steps [simp]:
  "quota_write_throws (set_key k a h) s = quota_write_throws h s"
  "quota_write_throws (push a h) s = quota_write_throws h s"
  "quota_write_throws (alloc c h) s = quota_write_throws h s"
  "quota_write_throws (fst (check_global h)) s = quota_write_throws h s"
  "quota_write_throws (check_connected h) s = quota_write_throws h s"
  by (rule quota_write_throws_cong; simp)+

lemma bump_quota_result:
  "snd (bump_quota s h) = (if quota_write_throws h s then Some TypeError else None)"
  by (simp add: bump_quota_def quota_write_throws_def split: slot.splits inherited.splits)

lemma returning_fst [simp]: "fst (returning v r) = fst r"
  by (simp add: returning_def split: prod.splits option.splits)

lemma returning_snd: "snd (returning v r) = (case snd r of Some err \<Rightarrow> Inl err | None \<Rightarrow> Inr v)"
  by (simp add: returning_def split: prod.splits option.splits)

text \<open>What a registration returns, and the object it creates.\<close>

lemma register_result:
  "snd (register kind ev f k h) =
     (if ceiling_reached h then Inl CapacityExceeded
      else if quota_write_throws h (stringigiedEvent ev) then Inl TypeError
      else Inr (Some k))"
  by (cases kind)
     (simp_all add: on_def onOrderOf_def onceOrderOf_def once_def validate_cases Let_def
        returning_snd bump_quota_result)

lemma register_fields:
  assumes "\<not> ceiling_reached h"
  shows "heap (fst (register kind ev f k h)) ! length (heap h) = last (heap (fst (register kind ev f k h)))"
    "length (heap (fst (register kind ev f k h))) = Suc (length (heap h))"
    "take (length (heap h)) (heap (fst (register kind ev f k h))) = heap h"
    "callbacks (fst (register kind ev f k h)) = callbacks h"
    "length (arrays (fst (register kind ev f k h))) = length (arrays h)"
    "connected (fst (register kind ev f k h)) = connected h"
    "maxListeners (fst (register kind ev f k h)) = maxListeners h"
    "calls_of a (fst (register kind ev f k h)) = calls_of a h"
  using assms
  by (cases kind; simp add: on_def onOrderOf_def onceOrderOf_def once_def validate_cases Let_def calls_of_def)+

lemma register_inherited_max [simp]:
  "inherited_max (fst (register kind ev f k h)) = inherited_max h"
  by (cases kind; simp add: on_def onOrderOf_def onceOrderOf_def once_def validate_cases Let_def)

lemma register_refused:
  assumes "ceiling_reached h"
  shows "registry (fst (register kind ev f k h)) = registry h"
    "heap (fst (register kind ev f k h)) = heap h"
  using assms
  by (cases kind; simp add: on_def onOrderOf_def onceOrderOf_def once_def validate_cases Let_def)+

lemma register_object:
  assumes "\<not> ceiling_reached h"
  shows "event (heap (fst (register kind ev f k h)) ! length (heap h)) = event_field ev"
    "cb (heap (fst (register kind ev f k h)) ! length (heap h)) = f"
    "callable (heap (fst (register kind ev f k h)) ! length (heap h))"
  using assms
  by (cases kind; simp add: on_def onOrderOf_def onceOrderOf_def once_def validate_cases Let_def)+

lemma no_pollution: "inherited_max h = [] \<Longrightarrow> \<not> quota_write_throws h s"
  by (simp add: quota_write_throws_def slot_of_def inherited_value_def split: option.splits)

lemma register_registry:
  assumes "\<not> ceiling_reached h" "callbacks h < length (arrays h)"
  shows "registry (fst (register kind ev f k h)) = registry h @ [At (length (heap h))]"
  using assms
  by (cases kind; simp add: on_def onOrderOf_def onceOrderOf_def once_def validate_cases Let_def registry_push)



lemmas eval_defs =
  new_LocalSocket_def on_def onOrderOf_def onceOrderOf_def once_def validate_def check_connected_def
  check_global_def concat_event_def isList_def event_field_def stringigiedEvent_def train_count_def
  alloc_def push_def set_key_def bump_quota_def returning_def slot_of_def inherited_value_def
  builtin_functions_def registry_def warn_def Let_def
  remove_def key_differs_def off_def reOn_def drop_all_def limitConnections_def
  setEventMaxListener_def

lemmas emit_defs =
  emit_snapshot_def emit_elem_def emit_body_def eventMatch_def strict_check_def callback_arg_def fire_def advance_def
  modify_def invoke_def spread_put_def includes_str_def startsWith_def trim_def is_space_def
  calls_of_def

lemma trace_validated:
  "\<exists>ws. trace (fst (check_global (check_connected h))) =
     trace h @ (if connected h then [] else [Warn InstanceDisconnected]) @ ws"
  by (simp add: check_global_def check_connected_def Let_def split: option.splits stored.splits)

lemma register_trace:
  "trace (fst (register kind ev f k h)) = trace (fst (check_global (check_connected h)))"
  by (cases kind; simp add: on_def onOrderOf_def onceOrderOf_def once_def validate_cases Let_def)

lemma limitConnections_fields [simp]:
  "registry (fst (limitConnections v h)) = registry h"
  "callbacks (fst (limitConnections v h)) = callbacks h"
  "arrays (fst (limitConnections v h)) = arrays h"
  "heap (fst (limitConnections v h)) = heap h"
  "connected (fst (limitConnections v h)) = connected h"
  "events (fst (limitConnections v h)) = events h"
  "inherited_max (fst (limitConnections v h)) = inherited_max h"
  by (simp_all add: limitConnections_def registry_def)

text \<open>Whole numbers below \<open>10\<^sup>2\<^sup>1\<close> are stored as they are.\<close>

lemma ndigits_pos: "0 < ndigits s"
  by (subst ndigits.simps) simp

lemma ndigits_le: "0 < k \<Longrightarrow> s < 10 ^ k \<Longrightarrow> ndigits s \<le> k"
proof (induction k arbitrary: s)
  case 0
  then show ?case by simp
next
  case (Suc k)
  show ?case
  proof (cases "s < 10")
    case True
    then show ?thesis by (subst ndigits.simps) simp
  next
    case False
    then have k: "0 < k" using Suc.prems by (cases k) simp_all
    have "s div 10 < 10 ^ k" using Suc.prems(2) by (simp add: less_mult_imp_div_less)
    from Suc.IH[OF k this] show ?thesis using False by (subst ndigits.simps) simp
  qed
qed

lemma parseInt_Finite:
  "ndigits s \<le> 21 \<Longrightarrow>
   parseInt_String (Finite neg s (int (ndigits s))) = Whole (if neg then - int s else int s)"
  by (simp add: parseInt_String_def Let_def)

lemma parseInt_whole:
  assumes "\<bar>i\<bar> < 10 ^ 21"
  shows "parseInt_String (whole i) = Whole i"
proof (cases "i = 0")
  case True
  then show ?thesis by (simp add: whole_def parseInt_String_def)
next
  case False
  define s where "s = nat \<bar>i\<bar>"
  have "s < 10 ^ 21" using assms by (simp add: s_def nat_less_iff)
  then have "ndigits s \<le> 21" by (rule ndigits_le[rotated]) simp
  from parseInt_Finite[OF this, of "i < 0"]
  have "parseInt_String (Finite (i < 0) s (int (ndigits s))) = Whole i"
    by (simp add: s_def)
  then show ?thesis using False by (simp add: whole_def s_def)
qed

lemma falsy_whole [simp]: "falsy (whole i) = (i = 0)"
  by (simp add: whole_def falsy_def)

text \<open>
  Names that objects inherit, on a new instance: \<open>reOn(toString)\<close> appends the
  inherited function to the registry, where it counts against the global ceiling;
  \<open>on(toString)\<close> creates no entry in the quota table; \<open>setEventMaxListener(toString, 5)\<close>
  writes no warning; \<open>setEventMaxListener(zz, 5)\<close> does. And after
  \<open>setEventMaxListener(__proto__, 5)\<close> the name \<open>maxListeners\<close> is an inherited number:
  \<open>on(maxListeners)\<close> appends its listener and throws \<open>TypeError\<close>.
\<close>

lemma inherited_names:
  "(let h = (new_LocalSocket None :: nat LocalSocket);
        h1 = fst (setEventMaxListener ''__proto__'' (whole 5) h);
        r = on (Scalar ''maxListeners'') None ''k1'' h1
    in registry (reOn ''toString'' h) = [Foreign (BuiltinFunction ''toString'')]
     \<and> snd (on (Scalar ''a'') None ''k1'' (reOn ''toString'' (fst (limitConnections (whole 1) h))))
         = Inl CapacityExceeded
     \<and> snd (on (Scalar ''toString'') None ''k1'' h) = Inr (Some ''k1'')
     \<and> events (fst (on (Scalar ''toString'') None ''k1'' h)) = []
     \<and> setEventMaxListener ''toString'' (whole 5) h
         = (h\<lparr>inherited_max := [(''toString'', Whole 5)]\<rparr>, Inr ())
     \<and> setEventMaxListener ''zz'' (whole 5) h = (warn NeverRegistered h, Inr ())
     \<and> inherited_max h1 = [(''__proto__'', Whole 5)]
     \<and> snd r = Inl TypeError \<and> registry (fst r) = [At 0])"
  by (simp add: eval_defs parseInt_whole)

section \<open>Removal and reconnection (C4, C8)\<close>

text \<open>
  C4. For every key returned by any of the four registrations, after \<open>remove(key)\<close> no
  later announce invokes that listener's callback, and \<open>reconnect(key)\<close> restores
  delivery. The code breaks the first half for \<open>onOrderOf\<close>: its listener object is
  created without a \<open>key\<close> field, so the filter of \<open>remove\<close>, which compares that field,
  keeps it. On a new instance a listener registered by \<open>onOrderOf\<close> on \<open>a\<close> with key
  \<open>k1\<close> is still in the registry after \<open>remove(k1)\<close> and is called by \<open>emit(a, 7)\<close>;
  the same steps with \<open>on\<close>, whose object carries the key, leave the registry empty and
  make no call.
\<close>

theorem remove_misses_onOrderOf:
  "(let h1 = remove ''k1'' (fst (onOrderOf (Scalar ''a'') (Some 0) ''k1'' (new_LocalSocket None :: nat LocalSocket)));
        h2 = remove ''k1'' (fst (on (Scalar ''a'') (Some 0) ''k1'' (new_LocalSocket None :: nat LocalSocket)))
    in registry h1 = [At 0]
       \<and> map_option (\<lambda>(h, err). calls_of 0 h) (emit (\<lambda>f x. []) ''a'' 7 h1) = Some [Plain 7]
       \<and> registry h2 = []
       \<and> map_option (\<lambda>(h, err). calls_of 0 h) (emit (\<lambda>f x. []) ''a'' 7 h2) = Some [])"
  by (simp add: emit_is_snapshot eval_defs emit_defs)




section \<open>Registration on a disconnected instance (C5)\<close>

text \<open>
  C5, as amended. A registration made while the instance is disconnected first writes
  the advisory warning and then goes on as it does on a connected instance. When the
  global ceiling is reached it fails with \<open>CapacityExceeded\<close> and creates no listener.
  Otherwise it creates the listener (for the pattern and the callback it was given,
  callable) and appends it to the registry, and it returns the key; the one exception
  to the return is a pattern whose joined string finds an inherited number in the quota
  table (\<open>maxListeners\<close>, once a ceiling has been set for the name \<open>__proto__\<close>): the
  write of its count throws \<open>TypeError\<close>, after the listener has been appended.
\<close>

theorem register_while_disconnected:
  assumes "\<not> connected h" "callbacks h < length (arrays h)"
  shows "(\<exists>ws. trace (fst (register kind ev f k h)) = trace h @ Warn InstanceDisconnected # ws)
    \<and> (if ceiling_reached h
       then snd (register kind ev f k h) = Inl CapacityExceeded
          \<and> registry (fst (register kind ev f k h)) = registry h
          \<and> heap (fst (register kind ev f k h)) = heap h
       else snd (register kind ev f k h) =
              (if quota_write_throws h (stringigiedEvent ev) then Inl TypeError else Inr (Some k))
          \<and> registry (fst (register kind ev f k h)) = registry h @ [At (length (heap h))]
          \<and> length (heap (fst (register kind ev f k h))) = Suc (length (heap h))
          \<and> take (length (heap h)) (heap (fst (register kind ev f k h))) = heap h
          \<and> event (heap (fst (register kind ev f k h)) ! length (heap h)) = event_field ev
          \<and> cb (heap (fst (register kind ev f k h)) ! length (heap h)) = f
          \<and> callable (heap (fst (register kind ev f k h)) ! length (heap h)))"
proof -
  have 1: "\<exists>ws. trace (fst (register kind ev f k h)) = trace h @ Warn InstanceDisconnected # ws"
    using assms(1) trace_validated[of h] by (simp add: register_trace)
  show ?thesis
  proof (cases "ceiling_reached h")
    case True
    then show ?thesis using 1 by (simp add: register_result register_refused)
  next
    case False
    then show ?thesis
      using 1 assms(2)
      by (simp add: register_result register_registry register_fields(2,3) register_object)
  qed
qed

text \<open>
  Witness for C5: \<open>once([a, b])\<close> on a new instance whose \<open>connected\<close> flag is off.
\<close>

theorem register_while_disconnected_witness:
  "(let h = (new_LocalSocket None :: nat LocalSocket)\<lparr>connected := False\<rparr>;
        r = register ViaOnce (Names [''a'', ''b'']) None ''k1'' h
    in trace (fst r) = [Warn InstanceDisconnected] \<and> snd r = Inr (Some ''k1'')
       \<and> registry (fst r) = [At 0] \<and> event (heap (fst r) ! 0) = ''a b'')"
  using register_while_disconnected[of "(new_LocalSocket None :: nat LocalSocket)\<lparr>connected := False\<rparr>"
      ViaOnce "Names [''a'', ''b'']" None "''k1''"]
  by (simp add: eval_defs ceiling_reached_def quota_write_throws_def trim_def is_space_def)

text \<open>
  Counterexample to C5 as stated (returns nothing, no key issued, the call is a no-op):
  after \<open>disconnect()\<close> on a new instance, \<open>on(a)\<close> returns its key \<open>k1\<close> and the
  listener is in the registry.
\<close>

theorem register_while_disconnected_returns_key:
  "map_option (\<lambda>(h, err). (connected h, snd (on (Scalar ''a'') None ''k1'' h),
                            registry (fst (on (Scalar ''a'') None ''k1'' h))))
     (disconnect (\<lambda>f x. []) (0::nat) (new_LocalSocket None))
   = Some (False, Inr (Some ''k1''), [At 0])"
  by (simp add: disconnect_def emit_def eval_defs)

section \<open>Ceilings (C6, C9, C10)\<close>

text \<open>
  C6. With a ceiling set for a pattern by \<open>setEventMaxListener\<close>, a registration for
  that pattern made when the count of its listeners has reached the ceiling fails with
  \<open>CapacityExceeded\<close>. The code does not: the check compares \<open>this.events.count\<close>, which
  is not a number, so it never throws. On a new instance, after \<open>on(a)\<close> and
  \<open>setEventMaxListener(a, 1)\<close> the quota entry of \<open>a\<close> has count 1 and ceiling 1, and a
  second \<open>on(a)\<close> returns its key and registers a second listener.
\<close>

theorem event_ceiling_never_enforced:
  "(let h1 = fst (on (Scalar ''a'') None ''k1'' (new_LocalSocket None :: nat LocalSocket));
        h2 = fst (setEventMaxListener ''a'' (whole 1) h1)
    in map_of (events h2) ''a'' = Some \<lparr>evMaxListeners = Some (Whole 1), count = 1\<rparr>
       \<and> snd (on (Scalar ''a'') None ''k2'' h2) = Inr (Some ''k2'')
       \<and> registry (fst (on (Scalar ''a'') None ''k2'' h2)) = [At 0, At 1])"
  by (simp add: eval_defs parseInt_whole)

text \<open>
  C9, as amended. On a new instance, after \<open>limitConnections(3)\<close>, three registrations
  (of any of the four kinds) succeed and return their keys and a fourth one fails with
  \<open>CapacityExceeded\<close>. In general \<open>limitConnections(v)\<close> refuses \<open>0\<close> and \<open>NaN\<close> and stores
  \<open>parseInt(String(v))\<close> for every other number: \<open>v\<close> itself when it is a whole number
  between \<open>-10\<^sup>2\<^sup>1\<close> and \<open>10\<^sup>2\<^sup>1\<close>. While the stored ceiling is a number other than
  zero, a registration fails with \<open>CapacityExceeded\<close> exactly when the number of
  registered listeners is equal to or above the stored ceiling (and returns its key
  otherwise, but for the \<open>TypeError\<close> of the quota write); while it is unset, zero or
  \<open>NaN\<close>, no registration fails with \<open>CapacityExceeded\<close>.
\<close>

theorem global_ceiling:
  "(let h0 = fst (limitConnections (whole 3) (new_LocalSocket n));
        r1 = register kd1 ev1 f1 k1 h0;
        r2 = register kd2 ev2 f2 k2 (fst r1);
        r3 = register kd3 ev3 f3 k3 (fst r2);
        r4 = register kd4 ev4 f4 k4 (fst r3)
    in snd r1 = Inr (Some k1) \<and> snd r2 = Inr (Some k2) \<and> snd r3 = Inr (Some k3)
       \<and> snd r4 = Inl CapacityExceeded)
   \<and> limitConnections v h =
       (if falsy v then (h, Inl InvalidArgument)
        else (h\<lparr>maxListeners := Some (parseInt_String v)\<rparr>, Inr ()))
   \<and> (\<bar>i\<bar> < 10 ^ 21 \<longrightarrow> parseInt_String (whole i) = Whole i)
   \<and> (maxListeners h = Some (Whole m) \<and> m \<noteq> 0 \<longrightarrow>
        (snd (register kd ev f k h) = Inl CapacityExceeded) = (m \<le> int (length (registry h)))
      \<and> (snd (register kd ev f k h) = Inr (Some k))
          = (int (length (registry h)) < m \<and> \<not> quota_write_throws h (stringigiedEvent ev)))
   \<and> (maxListeners h \<in> {None, Some NaN, Some (Whole 0)} \<longrightarrow>
        snd (register kd ev f k h) \<noteq> Inl CapacityExceeded)"
proof -
  define h0 :: "'a LocalSocket" where "h0 = fst (limitConnections (whole 3) (new_LocalSocket n))"
  define h1 where "h1 = fst (register kd1 ev1 f1 k1 h0)"
  define h2 where "h2 = fst (register kd2 ev2 f2 k2 h1)"
  define h3 where "h3 = fst (register kd3 ev3 f3 k3 h2)"
  have 0: "maxListeners h0 = Some (Whole 3)" "registry h0 = []" "callbacks h0 < length (arrays h0)"
    "inherited_max h0 = []"
    by (simp_all add: h0_def limitConnections_def parseInt_whole new_LocalSocket_def registry_def)
  then have c0: "\<not> ceiling_reached h0" by (simp add: ceiling_reached_def)
  have 1: "maxListeners h1 = Some (Whole 3)" "length (registry h1) = 1" "callbacks h1 < length (arrays h1)"
    "inherited_max h1 = []"
    using 0 c0 by (simp_all add: h1_def register_fields register_registry)
  then have c1: "\<not> ceiling_reached h1" by (simp add: ceiling_reached_def)
  have 2: "maxListeners h2 = Some (Whole 3)" "length (registry h2) = 2" "callbacks h2 < length (arrays h2)"
    "inherited_max h2 = []"
    using 1 c1 by (simp_all add: h2_def register_fields register_registry)
  then have c2: "\<not> ceiling_reached h2" by (simp add: ceiling_reached_def)
  have 3: "maxListeners h3 = Some (Whole 3)" "length (registry h3) = 3" "callbacks h3 < length (arrays h3)"
    using 2 c2 by (simp_all add: h3_def register_fields register_registry)
  then have c3: "ceiling_reached h3" by (simp add: ceiling_reached_def)
  have A: "snd (register kd1 ev1 f1 k1 h0) = Inr (Some k1) \<and> snd (register kd2 ev2 f2 k2 h1) = Inr (Some k2)
     \<and> snd (register kd3 ev3 f3 k3 h2) = Inr (Some k3) \<and> snd (register kd4 ev4 f4 k4 h3) = Inl CapacityExceeded"
    using c0 c1 c2 c3 0(4) 1(4) 2(4) by (simp add: register_result no_pollution)
  have B: "limitConnections v h =
       (if falsy v then (h, Inl InvalidArgument)
        else (h\<lparr>maxListeners := Some (parseInt_String v)\<rparr>, Inr ()))"
    by (simp add: limitConnections_def)
  have C: "\<bar>i\<bar> < 10 ^ 21 \<longrightarrow> parseInt_String (whole i) = Whole i"
    by (simp add: parseInt_whole)
  have D: "maxListeners h = Some (Whole m) \<and> m \<noteq> 0 \<longrightarrow>
        (snd (register kd ev f k h) = Inl CapacityExceeded) = (m \<le> int (length (registry h)))
      \<and> (snd (register kd ev f k h) = Inr (Some k))
          = (int (length (registry h)) < m \<and> \<not> quota_write_throws h (stringigiedEvent ev))"
    by (auto simp: register_result ceiling_reached_def)
  have E: "maxListeners h \<in> {None, Some NaN, Some (Whole 0)} \<longrightarrow>
        snd (register kd ev f k h) \<noteq> Inl CapacityExceeded"
    by (auto simp: register_result ceiling_reached_def)
  from A B C D E show ?thesis
    unfolding Let_def h0_def[symmetric] h1_def[symmetric] h2_def[symmetric] h3_def[symmetric]
    by blast
qed

text \<open>
  Witness for C9: the ceiling 3 with three listeners registered, and with none; the
  number 3 is stored as it is; and no ceiling at all.
\<close>

theorem global_ceiling_witness:
  "(let h = (new_LocalSocket None :: nat LocalSocket);
        h0 = fst (limitConnections (whole 3) h);
        h3 = fst (on (Scalar ''c'') None ''k3'' (fst (once (Scalar ''b'') None ''k2''
               (fst (onOrderOf (Scalar ''a'') None ''k1'' h0)))))
    in maxListeners h3 = Some (Whole 3) \<and> length (registry h3) = 3
       \<and> snd (register ViaOn (Scalar ''a'') None ''k4'' h3) = Inl CapacityExceeded
       \<and> snd (register ViaOn (Scalar ''a'') None ''k1'' h0) = Inr (Some ''k1'')
       \<and> \<bar>3 :: int\<bar> < 10 ^ 21 \<and> parseInt_String (whole 3) = Whole 3
       \<and> maxListeners h = None
       \<and> snd (register ViaOn (Scalar ''a'') None ''k1'' h) \<noteq> Inl CapacityExceeded)"
  using global_ceiling[where h = "fst (on (Scalar ''c'') None ''k3'' (fst (once (Scalar ''b'') None ''k2''
               (fst (onOrderOf (Scalar ''a'') None ''k1''
                  (fst (limitConnections (whole 3) (new_LocalSocket None :: nat LocalSocket))))))))"
      and m = 3 and i = 3 and kd = ViaOn and ev = "Scalar ''a''" and f = None and k = "''k4''"]
    global_ceiling[where h = "fst (limitConnections (whole 3) (new_LocalSocket None :: nat LocalSocket))"
      and m = 3 and i = 3 and kd = ViaOn and ev = "Scalar ''a''" and f = None and k = "''k1''"]
    global_ceiling[where h = "new_LocalSocket None :: nat LocalSocket"
      and m = 3 and i = 3 and kd = ViaOn and ev = "Scalar ''a''" and f = None and k = "''k1''"]
  by (simp add: eval_defs parseInt_whole quota_write_throws_def)

text \<open>
  Counterexample to C9 as stated (with a global ceiling set, a registration fails
  exactly when the listener count is equal to or above the ceiling).
  \<open>limitConnections(0.5)\<close> is accepted and stores \<open>parseInt("0.5") = 0\<close>, which the check
  takes for no ceiling: two registrations succeed, the second with the count 1 above
  the ceiling 0.5. \<open>limitConnections(2.9)\<close> stores 2: the third registration fails with
  the count 2 below the ceiling 2.9.
\<close>

theorem global_ceiling_not_the_number_given:
  "(let h = (new_LocalSocket None :: nat LocalSocket);
        half = Finite False 5 0;
        r0 = limitConnections half h;
        r1 = on (Scalar ''a'') None ''k1'' (fst r0);
        r2 = on (Scalar ''b'') None ''k2'' (fst r1);
        s0 = limitConnections (Finite False 29 1) h;
        s1 = on (Scalar ''a'') None ''k1'' (fst s0);
        s2 = on (Scalar ''b'') None ''k2'' (fst s1);
        s3 = on (Scalar ''c'') None ''k3'' (fst s2)
    in snd r0 = Inr () \<and> maxListeners (fst r0) = Some (Whole 0)
       \<and> snd r1 = Inr (Some ''k1'') \<and> length (registry (fst r1)) = 1
       \<and> snd r2 = Inr (Some ''k2'') \<and> length (registry (fst r2)) = 2
       \<and> snd s0 = Inr () \<and> maxListeners (fst s0) = Some (Whole 2)
       \<and> snd s2 = Inr (Some ''k2'') \<and> length (registry (fst s2)) = 2
       \<and> snd s3 = Inl CapacityExceeded)"
  by (simp add: eval_defs falsy_def parseInt_String_def ndigits.simps)

text \<open>
  C10, as amended. \<open>drop()\<close> empties the registry, the key map and the quota table, and
  keeps the global ceiling; the ceilings of single patterns are stored in the quota
  table and go with it. (What \<open>setEventMaxListener\<close> has written onto an inherited
  value, for a name such as \<open>toString\<close> that never gets an entry in the quota table, is
  not in the table and stays.)
\<close>

theorem drop_all_clears_tables_keeps_global_ceiling:
  "registry (drop_all h) = [] \<and> keys (drop_all h) = [] \<and> events (drop_all h) = []
   \<and> maxListeners (drop_all h) = maxListeners h
   \<and> map_of (events (drop_all h)) e = None
   \<and> inherited_max (drop_all h) = inherited_max h"
  by (simp add: drop_all_def registry_def)

text \<open>
  Counterexample to C10 as stated (previously set per-pattern ceilings still hold their
  values after \<open>drop()\<close>): the ceiling 5 set for \<open>a\<close> is gone after \<open>drop()\<close>, while the
  global ceiling 3 is still there.
\<close>

theorem drop_all_loses_event_ceiling:
  "(let h1 = fst (on (Scalar ''a'') None ''k1'' (new_LocalSocket None :: nat LocalSocket));
        h2 = fst (setEventMaxListener ''a'' (whole 5) h1);
        h3 = fst (limitConnections (whole 3) h2)
    in map_option evMaxListeners (map_of (events h3) ''a'') = Some (Some (Whole 5))
       \<and> map_of (events (drop_all h3)) ''a'' = None
       \<and> maxListeners (drop_all h3) = Some (Whole 3))"
  by (simp add: eval_defs parseInt_whole)

section \<open>Trains of names\<close>

subsection \<open>Joined names\<close>











subsection \<open>One listener, one announcement\<close>

lemma listener_step_cases:
  "listener_step e args c =
     (if eventMatch c e then advance True e args (if callable c then fire_obj c else c)
      else advance False e args (strict_check False e c))"
  by (simp add: listener_step_def Let_def)

lemma fire_obj_fields [simp]:
  "isTrainOfEvent (fire_obj c) = isTrainOfEvent c" "event (fire_obj c) = event c"
  "order (fire_obj c) = order c" "callable (fire_obj c) = callable c"
  "callType (fire_obj c) = callType c" "registered (fire_obj c) = registered c"
  by (simp_all add: fire_obj_def split: callKind.splits)

lemma advance_fields [simp]:
  "isTrainOfEvent (advance m e args c) = isTrainOfEvent c" "event (advance m e args c) = event c"
  "order (advance m e args c) = order c" "callable (advance m e args c) = callable c"
  "callType (advance m e args c) = callType c"
  by (simp_all add: advance_def Let_def)

lemma listener_step_fields [simp]:
  "isTrainOfEvent (listener_step e args c) = isTrainOfEvent c"
  "event (listener_step e args c) = event c"
  "order (listener_step e args c) = order c" "callable (listener_step e args c) = callable c"
  "callType (listener_step e args c) = callType c"
  by (simp_all add: listener_step_cases)







subsection \<open>Names that do not occur in the pattern\<close>






lemma track_append: "track (xs @ ys) c = track ys (track xs c)"
  by (induction xs arbitrary: c) simp_all

lemma track_calls_append:
  "track_calls (xs @ ys) c = track_calls xs c @ track_calls ys (track xs c)"
  by (induction xs arbitrary: c) simp_all

lemma track_fields [simp]:
  "isTrainOfEvent (track eps c) = isTrainOfEvent c" "event (track eps c) = event c"
  "order (track eps c) = order c" "callable (track eps c) = callable c"
  "callType (track eps c) = callType c"
  by (induction eps arbitrary: c) simp_all







lemma hub_ok_new: "hub_ok (new_LocalSocket n)"
  by (simp add: hub_ok_def new_LocalSocket_def registry_def)





section \<open>Sequence matching (C1, C2, C3)\<close>

text \<open>
  In this section the callbacks leave the instance alone (\<open>inert\<close>), the instance is
  connected, its stores are well formed and its registry holds the listener once, and
  names are non-empty and free of white space (\<open>plain_name\<close>). The calls a run of
  announcements makes on a listener are the ones \<open>calls_of\<close> gains over the run.
\<close>










section \<open>The listeners of one pass (C7)\<close>




end
